theory Spec2Isabelle
  imports Complex_Main
begin

section \<open>JavaScript strings\<close>

text \<open>
  Strings are lists of code units below 0x100 (\<^typ>\<open>char\<close>).  The helpers below
  follow the ECMAScript definitions of the string methods and regular expression classes
  that \<^verbatim>\<open>lib/transactions.ts\<close> uses, restricted to that range.
\<close>

definition isDigit :: "char \<Rightarrow> bool" where
  \<comment> \<open>the class \<^verbatim>\<open>[0-9]\<close>, also written \<^verbatim>\<open>\d\<close>\<close>
  "isDigit c = (48 \<le> (of_char c :: nat) \<and> (of_char c :: nat) \<le> 57)"

definition isWordChar :: "char \<Rightarrow> bool" where
  \<comment> \<open>the class \<^verbatim>\<open>\w\<close>: letters, digits and the underscore\<close>
  "isWordChar c = (let n = (of_char c :: nat) in
     (48 \<le> n \<and> n \<le> 57) \<or> (65 \<le> n \<and> n \<le> 90) \<or> n = 95 \<or> (97 \<le> n \<and> n \<le> 122))"

definition isWhiteSpace :: "char \<Rightarrow> bool" where
  \<comment> \<open>the class \<^verbatim>\<open>\s\<close>, which is also what \<^verbatim>\<open>trim\<close> strips:
      TAB, LF, VT, FF, CR, SP and NBSP\<close>
  "isWhiteSpace c = (let n = (of_char c :: nat) in
     (9 \<le> n \<and> n \<le> 13) \<or> n = 32 \<or> n = 160)"

definition isUpper :: "char \<Rightarrow> bool" where
  \<comment> \<open>the code units that \<^verbatim>\<open>toLowerCase\<close> changes: A-Z and the Latin-1 capitals\<close>
  "isUpper c = (let n = (of_char c :: nat) in
     (65 \<le> n \<and> n \<le> 90) \<or> (192 \<le> n \<and> n \<le> 214) \<or> (216 \<le> n \<and> n \<le> 222))"

definition toLowerChar :: "char \<Rightarrow> char" where
  \<comment> \<open>the lower-case partner of a capital is 32 above it: bit 5 is set\<close>
  "toLowerChar c =
     (if isUpper c
      then (case c of Char b0 b1 b2 b3 b4 b5 b6 b7 \<Rightarrow> Char b0 b1 b2 b3 b4 True b6 b7)
      else c)"

definition toLowerCase :: "string \<Rightarrow> string" where
  "toLowerCase s = map toLowerChar s"

definition trim :: "string \<Rightarrow> string" where
  "trim s = rev (dropWhile isWhiteSpace (rev (dropWhile isWhiteSpace s)))"

definition startsWith :: "string \<Rightarrow> string \<Rightarrow> bool" where
  "startsWith s p = (take (length p) s = p)"

definition endsWith :: "string \<Rightarrow> string \<Rightarrow> bool" where
  "endsWith s p = startsWith (rev s) (rev p)"

fun includesStr :: "string \<Rightarrow> string \<Rightarrow> bool" where
  "includesStr [] sub = (sub = [])"
| "includesStr (c # cs) sub = (startsWith (c # cs) sub \<or> includesStr cs sub)"

definition testAny :: "string list \<Rightarrow> string \<Rightarrow> bool" where
  \<comment> \<open>\<^verbatim>\<open>/k1|k2|.../.test(s)\<close> for literal alternatives: some alternative occurs in \<open>s\<close>\<close>
  "testAny ks s = list_ex (includesStr s) ks"

fun splitChar :: "char \<Rightarrow> string \<Rightarrow> string list" where
  \<comment> \<open>\<^verbatim>\<open>s.split(",")\<close>: the pieces between the separators, empty pieces kept\<close>
  "splitChar sep [] = [[]]"
| "splitChar sep (c # cs) =
     (if c = sep then [] # splitChar sep cs
      else (case splitChar sep cs of t # ts \<Rightarrow> (c # t) # ts | [] \<Rightarrow> [[c]]))"

fun splitLines :: "string \<Rightarrow> string list" where
  \<comment> \<open>\<^verbatim>\<open>s.split(/\r?\n/)\<close>: a CR belongs to the separator only right before a LF\<close>
  "splitLines [] = [[]]"
| "splitLines (c # cs) =
     (if c = CHR 0x0A then [] # splitLines cs
      else if c = CHR 0x0D \<and> cs \<noteq> [] \<and> hd cs = CHR 0x0A then splitLines cs
      else (case splitLines cs of t # ts \<Rightarrow> (c # t) # ts | [] \<Rightarrow> [[c]]))"

fun splitSpaces :: "string \<Rightarrow> string list" where
  \<comment> \<open>\<^verbatim>\<open>s.split(/\s+/)\<close>: a maximal run of white space is one separator\<close>
  "splitSpaces [] = [[]]"
| "splitSpaces (c # cs) =
     (if isWhiteSpace c
      then (if cs \<noteq> [] \<and> isWhiteSpace (hd cs) then splitSpaces cs else [] # splitSpaces cs)
      else (case splitSpaces cs of t # ts \<Rightarrow> (c # t) # ts | [] \<Rightarrow> [[c]]))"

fun joinWith :: "string \<Rightarrow> string list \<Rightarrow> string" where
  \<comment> \<open>\<^verbatim>\<open>xs.join(sep)\<close>\<close>
  "joinWith sep [] = []"
| "joinWith sep [x] = x"
| "joinWith sep (x # y # ys) = x @ sep @ joinWith sep (y # ys)"

definition slice :: "nat \<Rightarrow> nat \<Rightarrow> 'a list \<Rightarrow> 'a list" where
  \<comment> \<open>\<^verbatim>\<open>xs.slice(a, b)\<close> for non-negative bounds; empty when \<open>b \<le> a\<close>\<close>
  "slice a b xs = take (b - a) (drop a xs)"

definition textLines :: "string \<Rightarrow> string list" where
  \<comment> \<open>\<^verbatim>\<open>text.split(/\r?\n/).map((l) => l.trim()).filter(Boolean)\<close>\<close>
  "textLines text = filter (\<lambda>l. l \<noteq> []) (map trim (splitLines text))"

section \<open>Numbers\<close>

text \<open>
  A JavaScript number is modelled as \<open>NaN\<close> or an exact rational: sums and absolute
  values are the mathematical ones, and the rounding of IEEE doubles is not part of the
  model.  \<open>Number\<close> is \<^verbatim>\<open>Number(s)\<close> on strings of digits, dots and minus signs, which
  is all that the cleaned amount string can hold: the empty string is 0, an optional minus
  followed by \<^verbatim>\<open>digits\<close>, \<^verbatim>\<open>digits.\<close>, \<^verbatim>\<open>digits.digits\<close> or \<^verbatim>\<open>.digits\<close> is that
  decimal, and everything else is \<open>NaN\<close>.
\<close>

datatype number = NaN | Num rat

definition digitsVal :: "string \<Rightarrow> int" where
  \<comment> \<open>the value of a string of decimal digits\<close>
  "digitsVal ds = foldl (\<lambda>a c. 10 * a + ((of_char c :: int) - 48)) 0 ds"

definition unsignedDecimal :: "string \<Rightarrow> rat option" where
  "unsignedDecimal s =
     (let ip = takeWhile isDigit s; r = dropWhile isDigit s in
      if r = [] then (if ip = [] then None else Some (of_int (digitsVal ip)))
      else if hd r = CHR ''.'' \<and> list_all isDigit (tl r) \<and> \<not> (ip = [] \<and> tl r = [])
      then Some (of_int (digitsVal ip) + of_int (digitsVal (tl r)) / 10 ^ length (tl r))
      else None)"

definition Number :: "string \<Rightarrow> number" where
  "Number s =
     (if s = [] then Num 0
      else if hd s = CHR ''-''
      then (case unsignedDecimal (tl s) of None \<Rightarrow> NaN | Some q \<Rightarrow> Num (- q))
      else (case unsignedDecimal s of None \<Rightarrow> NaN | Some q \<Rightarrow> Num q))"

section \<open>Rows\<close>

text \<open>
  A row is a \<^verbatim>\<open>Record<string, string>\<close>: the list of its own properties in the order
  in which \<^verbatim>\<open>Object.values\<close> enumerates them.  \<open>getProp r k\<close> is \<^verbatim>\<open>r[k]\<close>, with
  \<open>None\<close> for \<^verbatim>\<open>undefined\<close>.
\<close>

type_synonym row = "(string \<times> string) list"

definition getProp :: "row \<Rightarrow> string \<Rightarrow> string option" where
  "getProp r k = map_of r k"

definition valueAt :: "row \<Rightarrow> nat \<Rightarrow> string option" where
  \<comment> \<open>\<^verbatim>\<open>Object.values(r)[i]\<close>\<close>
  "valueAt r i = (if i < length r then Some (snd (r ! i)) else None)"

fun firstTruthy :: "string option list \<Rightarrow> string \<Rightarrow> string" where
  \<comment> \<open>\<^verbatim>\<open>a || b || ... || d\<close> on strings: the first operand that is neither
      \<^verbatim>\<open>undefined\<close> nor empty, else the last operand \<open>d\<close>\<close>
  "firstTruthy [] d = d"
| "firstTruthy (None # xs) d = firstTruthy xs d"
| "firstTruthy (Some s # xs) d = (if s \<noteq> [] then s else firstTruthy xs d)"

definition isArrayIndex :: "string \<Rightarrow> bool" where
  \<comment> \<open>a canonical decimal string below \<open>2^32 - 1\<close>: such keys are enumerated first, ascending\<close>
  "isArrayIndex k =
     (k \<noteq> [] \<and> list_all isDigit k \<and> \<not> (hd k = CHR ''0'' \<and> k \<noteq> ''0'') \<and> digitsVal k < 4294967295)"

fun insertIndexed :: "int \<Rightarrow> string \<Rightarrow> string \<Rightarrow> row \<Rightarrow> row" where
  "insertIndexed n k v [] = [(k, v)]"
| "insertIndexed n k v ((k', v') # r) =
     (if isArrayIndex k' \<and> digitsVal k' < n then (k', v') # insertIndexed n k v r
      else (k, v) # (k', v') # r)"

definition setProperty :: "row \<Rightarrow> string \<Rightarrow> string \<Rightarrow> row" where
  \<comment> \<open>\<^verbatim>\<open>r[k] = v\<close> on an object literal: an existing key keeps its place, a new array
      index goes among the indices, any other new key goes last; assigning a string to
      \<^verbatim>\<open>__proto__\<close> creates no property\<close>
  "setProperty r k v =
     (if k = ''__proto__'' then r
      else if k \<in> set (map fst r) then map (\<lambda>(k', v'). if k' = k then (k', v) else (k', v')) r
      else if isArrayIndex k then insertIndexed (digitsVal k) k v r
      else r @ [(k, v)])"

section \<open>The data model of \<^verbatim>\<open>lib/transactions.ts\<close>\<close>

datatype TransactionType = DEBIT | CREDIT

datatype Category =
    INCOME | RENT | GROCERIES | FOOD_DELIVERY | SHOPPING | TRANSPORT
  | UTILITIES | SUBSCRIPTION | BANK_FEES | TRANSFER | OTHER

text \<open>
  The optional properties \<^verbatim>\<open>raw?\<close> and \<^verbatim>\<open>merchant?\<close> of the declared transaction types
  are options: \<open>None\<close> is a property that the object does not have.
\<close>

record Transaction =
  date :: string
  description :: string
  amount :: rat
  type :: TransactionType
  category :: Category
  raw :: "row option"
  merchant :: "string option"

record LeaksSummary =
  bankFees :: rat
  subscriptions :: rat
  foodDelivery :: rat

record MerchantTotal =
  mt_merchant :: string
  mt_amount :: rat

record MonthlySummary =
  income :: rat
  spending :: rat

text \<open>
  \<^verbatim>\<open>byCategory\<close> has all eleven keys from its initialisation on, so it is a total
  function on \<^typ>\<open>Category\<close>.  \<^verbatim>\<open>topMerchants?\<close> and \<^verbatim>\<open>monthly?\<close> are the optional
  properties of the declared summary type.
\<close>

record AnalysisSummary =
  totalIncome :: rat
  totalSpending :: rat
  net :: rat
  byCategory :: "Category \<Rightarrow> rat"
  leaks :: LeaksSummary
  topMerchants :: "MerchantTotal list option"
  monthly :: "(string \<times> MonthlySummary) list option"


section \<open>\<^verbatim>\<open>parseCsv\<close>\<close>

definition csvRow :: "string list \<Rightarrow> string \<Rightarrow> row" where
  \<comment> \<open>\<^verbatim>\<open>headers.forEach((h, i) => { row[h] = (cols[i] ?? "").trim(); })\<close>\<close>
  "csvRow headers line =
     (let cols = splitChar (CHR '','') line in
      foldl (\<lambda>r (h, i). setProperty r h (trim (if i < length cols then cols ! i else [])))
        [] (zip headers [0 ..< length headers]))"

definition parseCsv :: "string \<Rightarrow> row list" where
  "parseCsv text =
     (let lines = textLines text in
      if length lines < 2 then []
      else (let headers = map trim (splitChar (CHR '','') (hd lines))
            in map (csvRow headers) (tl lines)))"

section \<open>\<^verbatim>\<open>parsePdfTextToRows\<close>\<close>

definition isHeaderLine :: "string \<Rightarrow> bool" where
  "isHeaderLine line =
     (let lower = toLowerCase line in
      startsWith lower ''date'' \<or>
      startsWith lower ''transaction details'' \<or>
      includesStr lower ''cheque/reference'' \<or>
      (includesStr lower ''debit'' \<and> includesStr lower ''credit'' \<and> includesStr lower ''balance''))"

definition isDateCandidate :: "string \<Rightarrow> bool" where
  \<comment> \<open>\<^verbatim>\<open>/^\d{2}\s\w{3},\s\d{4}$/.test(s)\<close>\<close>
  "isDateCandidate s =
     (length s = 12 \<and>
      isDigit (s ! 0) \<and> isDigit (s ! 1) \<and> isWhiteSpace (s ! 2) \<and>
      isWordChar (s ! 3) \<and> isWordChar (s ! 4) \<and> isWordChar (s ! 5) \<and>
      s ! 6 = CHR '','' \<and> isWhiteSpace (s ! 7) \<and>
      isDigit (s ! 8) \<and> isDigit (s ! 9) \<and> isDigit (s ! 10) \<and> isDigit (s ! 11))"

definition parsePdfLine :: "string \<Rightarrow> row option" where
  \<comment> \<open>one turn of the loop over the lines; \<open>None\<close> is \<^verbatim>\<open>continue\<close>\<close>
  "parsePdfLine line =
     (if isHeaderLine line then None
      else (let parts = splitSpaces line in
        if length parts < 5 then None
        else (let dateCandidate = joinWith '' '' (slice 0 3 parts) in
          if \<not> isDateCandidate dateCandidate then None
          else (let numericIdx = filter (\<lambda>i. list_ex isDigit (parts ! i)) [0 ..< length parts] in
            if length numericIdx < 2 then None
            else (let balanceIdx = numericIdx ! (length numericIdx - 1);
                      amountIdx = numericIdx ! (length numericIdx - 2);
                      descriptionTokens = slice 3 amountIdx parts;
                      description = firstTruthy [Some (joinWith '' '' descriptionTokens)]
                                      ''UNKNOWN TRANSACTION'';
                      amountToken = parts ! amountIdx;
                      balanceToken = parts ! balanceIdx;
                      ty = (if \<not> includesStr amountToken ''-'' then CREDIT else DEBIT)
                  in Some [(''Date'', dateCandidate),
                           (''Description'', description),
                           (''Amount'', amountToken),
                           (''Balance'', balanceToken),
                           (''Credit/Debit'', if ty = CREDIT then ''Credit'' else ''Debit'')])))))"

definition parsePdfTextToRows :: "string \<Rightarrow> row list" where
  "parsePdfTextToRows text = List.map_filter parsePdfLine (textLines text)"

section \<open>\<^verbatim>\<open>mapRowToTransaction\<close>\<close>

definition rowDescription :: "row \<Rightarrow> string" where
  "rowDescription r =
     firstTruthy [getProp r ''Description'', getProp r ''Transaction Details'', getProp r ''Narration'',
                  getProp r ''details'', valueAt r 1] []"

definition rowAmountStr :: "row \<Rightarrow> string" where
  "rowAmountStr r =
     firstTruthy [getProp r ''Amount'', getProp r ''Withdrawal Amt.'', getProp r ''Debit'',
                  getProp r ''DEBIT'', getProp r ''Deposit Amt.'', getProp r ''Credit'',
                  getProp r ''CREDIT'', valueAt r 2] ''0''"

definition cleanAmount :: "string \<Rightarrow> string" where
  \<comment> \<open>\<^verbatim>\<open>amountStr.replace(/[^0-9.-]/g, "")\<close>\<close>
  "cleanAmount s = filter (\<lambda>c. isDigit c \<or> c = CHR ''.'' \<or> c = CHR ''-'') s"

definition rowTypeField :: "row \<Rightarrow> string" where
  "rowTypeField r =
     toLowerCase (firstTruthy [getProp r ''Credit/Debit'', getProp r ''Cr/Dr'', getProp r ''Dr/Cr'',
                               getProp r ''Type''] [])"

definition rowDate :: "string \<Rightarrow> row \<Rightarrow> string" where
  \<comment> \<open>\<open>today\<close> is \<^verbatim>\<open>new Date().toISOString().slice(0, 10)\<close>, the only reading of the clock\<close>
  "rowDate today r =
     firstTruthy [getProp r ''Date'', getProp r ''DATE'', getProp r ''Transaction Date'',
                  getProp r ''Value Date''] today"

definition mapRowToTransaction :: "string \<Rightarrow> row \<Rightarrow> Transaction option" where
  "mapRowToTransaction today r =
     (case Number (cleanAmount (rowAmountStr r)) of
        NaN \<Rightarrow> None
      | Num a \<Rightarrow>
          if a = 0 then None
          else (let typeField = rowTypeField r;
                    ty = (if includesStr typeField ''credit'' \<or> includesStr typeField ''cr'' \<or> a < 0
                          then CREDIT else DEBIT)
                in Some \<lparr> date = rowDate today r,
                          description = rowDescription r,
                          amount = \<bar>a\<bar>,
                          type = ty,
                          category = OTHER,
                          raw = Some r,
                          merchant = None \<rparr>))"

section \<open>\<^verbatim>\<open>categorizeTransaction\<close>\<close>

text \<open>
  The nine regular expressions of the function are alternatives of literal words; each is
  the list of its alternatives, tested with \<open>testAny\<close>.
\<close>

definition reSubscription :: "string list" where
  "reSubscription = [''netflix'', ''spotify'', ''youtube premium'', ''hotstar'', ''prime'',
                     ''zee5'', ''subscription'', ''renewal'']"

definition reFoodDelivery :: "string list" where
  "reFoodDelivery = [''swiggy'', ''zomato'', ''blinkit'', ''eats'', ''foodpanda'']"

definition reRent :: "string list" where
  \<comment> \<open>\<^verbatim>\<open>/rent/i\<close>, applied to the description already in lower case\<close>
  "reRent = [''rent'']"

definition reGroceries :: "string list" where
  "reGroceries = [''big bazaar'', ''d-mart'', ''dmart'', ''grofers'', ''grocery'',
                  ''more supermarket'', ''reliance fresh'']"

definition reShopping :: "string list" where
  "reShopping = [''amazon'', ''flipkart'', ''myntra'', ''ajio'', ''nykaa'']"

definition reTransport :: "string list" where
  "reTransport = [''uber'', ''ola'', ''rapido'', ''metro'', ''bus'', ''auto'', ''cab'']"

definition reUtilities :: "string list" where
  "reUtilities = [''electricity'', ''water bill'', ''gas bill'', ''mobile bill'', ''postpaid'',
                  ''prepaid'', ''wifi'', ''broadband'', ''jio'', ''airtel'']"

definition reBankFees :: "string list" where
  "reBankFees = [''charge'', ''fee'', ''penalty'', ''fine'', ''interest'', ''late fee'',
                 ''bank charge'', ''annual fee'']"

definition reTransfer :: "string list" where
  "reTransfer = [''neft'', ''rtgs'', ''imps'', ''upi'', ''transfer'', ''to account'',
                 ''from account'']"

definition categorizeTransaction :: "Transaction \<Rightarrow> Transaction" where
  "categorizeTransaction tx =
     (let desc = toLowerCase (description tx) in
      if type tx = CREDIT then tx\<lparr>category := INCOME\<rparr>
      else if testAny reSubscription desc then tx\<lparr>category := SUBSCRIPTION\<rparr>
      else if testAny reFoodDelivery desc then tx\<lparr>category := FOOD_DELIVERY\<rparr>
      else if testAny reRent desc then tx\<lparr>category := RENT\<rparr>
      else if testAny reGroceries desc then tx\<lparr>category := GROCERIES\<rparr>
      else if testAny reShopping desc then tx\<lparr>category := SHOPPING\<rparr>
      else if testAny reTransport desc then tx\<lparr>category := TRANSPORT\<rparr>
      else if testAny reUtilities desc then tx\<lparr>category := UTILITIES\<rparr>
      else if testAny reBankFees desc then tx\<lparr>category := BANK_FEES\<rparr>
      else if testAny reTransfer desc then tx\<lparr>category := TRANSFER\<rparr>
      else tx)"

definition keywordRules :: "(string list \<times> Category) list" where
  \<comment> \<open>the keyword tests of \<open>categorizeTransaction\<close> in their order, each with its category\<close>
  "keywordRules =
     [(reSubscription, SUBSCRIPTION), (reFoodDelivery, FOOD_DELIVERY), (reRent, RENT),
      (reGroceries, GROCERIES), (reShopping, SHOPPING), (reTransport, TRANSPORT),
      (reUtilities, UTILITIES), (reBankFees, BANK_FEES), (reTransfer, TRANSFER)]"

definition matchesNoKeywordRule :: "Transaction \<Rightarrow> bool" where
  "matchesNoKeywordRule tx =
     (\<not> list_ex (\<lambda>(re, c). testAny re (toLowerCase (description tx))) keywordRules)"

section \<open>\<^verbatim>\<open>computeSummary\<close>\<close>

record totals =
  accIncome :: rat
  accSpending :: rat
  accByCategory :: "Category \<Rightarrow> rat"

definition addTransaction :: "totals \<Rightarrow> Transaction \<Rightarrow> totals" where
  \<comment> \<open>the body of the loop over the transactions\<close>
  "addTransaction s tx =
     (let s' = (if type tx = CREDIT then s\<lparr>accIncome := accIncome s + amount tx\<rparr>
                else s\<lparr>accSpending := accSpending s + amount tx\<rparr>)
      in s'\<lparr>accByCategory := (accByCategory s')(category tx := accByCategory s' (category tx) + amount tx)\<rparr>)"

definition computeSummary :: "Transaction list \<Rightarrow> AnalysisSummary" where
  "computeSummary transactions =
     (let s = foldl addTransaction
                \<lparr>accIncome = 0, accSpending = 0, accByCategory = (\<lambda>c. 0)\<rparr> transactions
      in \<lparr> totalIncome = accIncome s,
           totalSpending = accSpending s,
           net = accIncome s - accSpending s,
           byCategory = accByCategory s,
           leaks = \<lparr> bankFees = accByCategory s BANK_FEES,
                     subscriptions = accByCategory s SUBSCRIPTION,
                     foodDelivery = accByCategory s FOOD_DELIVERY \<rparr>,
           topMerchants = None,
           monthly = None \<rparr>)"

section \<open>The analyze handler\<close>

text \<open>
  \<open>POST\<close> is the handler of \<^verbatim>\<open>app/api/analyze/route.ts\<close>.  The uploaded file is its
  name, its declared type and its content; \<open>pdfParse\<close> is the external text extraction,
  \<open>None\<close> when it throws; \<open>today\<close> is the current date that \<open>mapRowToTransaction\<close>
  falls back to.  A response is the JSON body of the success case or one of the error
  responses with status 400.  None of the modelled steps throws outside the PDF branch,
  so the handler's last \<^verbatim>\<open>catch\<close> (status 500) is not a case of the model.
\<close>

record upload =
  file_name :: string
  file_type :: string
  file_content :: string

datatype failure = NoFileUploaded | PdfUnreadable | NoTransactionsDetected

datatype response = Success "Transaction list" AnalysisSummary | Failure failure

definition status :: "response \<Rightarrow> nat" where
  "status r = (case r of Success _ _ \<Rightarrow> 200 | Failure _ \<Rightarrow> 400)"

definition extractRows :: "(string \<Rightarrow> string option) \<Rightarrow> upload \<Rightarrow> row list option" where
  \<comment> \<open>the two branches that fill \<^verbatim>\<open>rows\<close>; \<open>None\<close> when the PDF branch throws\<close>
  "extractRows pdfParse file =
     (let fileName = toLowerCase (file_name file);
          fileType = toLowerCase (file_type file)
      in if endsWith fileName ''.pdf'' \<or> fileType = ''application/pdf''
         then (case pdfParse (file_content file) of
                 None \<Rightarrow> None
               | Some text \<Rightarrow> Some (parsePdfTextToRows text))
         else Some (parseCsv (file_content file)))"

definition toTransactions :: "string \<Rightarrow> row list \<Rightarrow> Transaction list" where
  \<comment> \<open>\<^verbatim>\<open>rows.map(mapRowToTransaction).filter((t) => !!t).map(categorizeTransaction)\<close>\<close>
  "toTransactions today rows =
     map categorizeTransaction (List.map_filter (mapRowToTransaction today) rows)"

definition POST :: "(string \<Rightarrow> string option) \<Rightarrow> string \<Rightarrow> upload option \<Rightarrow> response" where
  "POST pdfParse today req =
     (case req of
        None \<Rightarrow> Failure NoFileUploaded
      | Some file \<Rightarrow>
          (case extractRows pdfParse file of
             None \<Rightarrow> Failure PdfUnreadable
           | Some rows \<Rightarrow>
               if rows = [] then Failure NoTransactionsDetected
               else (let transactions = toTransactions today rows
                     in Success transactions (computeSummary transactions))))"

definition extractedRows :: "(string \<Rightarrow> string option) \<Rightarrow> upload option \<Rightarrow> row list" where
  \<comment> \<open>the value of \<^verbatim>\<open>rows\<close> when the handler reaches the emptiness test, else no rows\<close>
  "extractedRows pdfParse req =
     (case req of
        None \<Rightarrow> []
      | Some file \<Rightarrow> (case extractRows pdfParse file of None \<Rightarrow> [] | Some rows \<Rightarrow> rows))"

definition hasDateColumn :: "row \<Rightarrow> bool" where
  \<comment> \<open>one of the four date columns holds a non-empty string, so the date is not defaulted\<close>
  "hasDateColumn r =
     list_ex (\<lambda>k. case getProp r k of None \<Rightarrow> False | Some v \<Rightarrow> v \<noteq> [])
       [''Date'', ''DATE'', ''Transaction Date'', ''Value Date'']"

definition hasTypeColumn :: "row \<Rightarrow> bool" where
  \<comment> \<open>one of the four type columns holds a non-empty string\<close>
  "hasTypeColumn r =
     list_ex (\<lambda>k. case getProp r k of None \<Rightarrow> False | Some v \<Rightarrow> v \<noteq> [])
       [''Credit/Debit'', ''Cr/Dr'', ''Dr/Cr'', ''Type'']"

definition responseSummary :: "response \<Rightarrow> failure + AnalysisSummary" where
  \<comment> \<open>the \<^verbatim>\<open>summary\<close> of a response, or the error it carries instead\<close>
  "responseSummary r = (case r of Success txs s \<Rightarrow> Inr s | Failure e \<Rightarrow> Inl e)"

section \<open>Sample inputs\<close>

definition newline :: string where
  "newline = [CHR 0x0A]"

definition scenarioB :: string where
  \<comment> \<open>the statement line of the PDF example\<close>
  "scenarioB =
     ''01 Oct, 2025 UPI/DEVRAJ VERMA/29xxxx/Sent using Paytm UPI-527431570952 -135.00 20,127.38''"

definition scenarioB_row :: row where
  "scenarioB_row =
     [(''Date'', ''01 Oct, 2025''),
      (''Description'', ''UPI/DEVRAJ VERMA/29xxxx/Sent using Paytm UPI-527431570952''),
      (''Amount'', ''-135.00''),
      (''Balance'', ''20,127.38''),
      (''Credit/Debit'', ''Debit'')]"

definition swiggy_row :: row where
  "swiggy_row =
     [(''Date'', ''01-10-2025''), (''Description'', ''SWIGGY ORDER''), (''Amount'', ''450''),
      (''Type'', ''Debit'')]"

definition zero_row :: row where
  "zero_row =
     [(''Date'', ''02-10-2025''), (''Description'', ''REVERSAL''), (''Amount'', ''INR 0.00''),
      (''Type'', ''Debit'')]"

definition salary_row :: row where
  "salary_row =
     [(''Date'', ''03-10-2025''), (''Description'', ''SALARY OCT''), (''Amount'', ''52,000.50''),
      (''Type'', ''Credit'')]"

definition zero_csv :: upload where
  \<comment> \<open>a statement whose only row has the amount 0\<close>
  "zero_csv =
     \<lparr> file_name = ''statement.csv'', file_type = ''text/csv'',
       file_content = ''Date,Description,Amount,Type'' @ newline @
                      ''02-10-2025,REVERSAL,INR 0.00,Debit'' @ newline \<rparr>"

definition empty_csv :: upload where
  \<comment> \<open>a statement that has its header line only\<close>
  "empty_csv =
     \<lparr> file_name = ''statement.csv'', file_type = ''text/csv'',
       file_content = ''Date,Description,Amount,Type'' @ newline \<rparr>"

definition scenarioA_csv :: upload where
  "scenarioA_csv =
     \<lparr> file_name = ''statement.csv'', file_type = ''text/csv'',
       file_content = ''Date,Description,Amount,Type'' @ newline @
                      ''01-10-2025,SWIGGY ORDER,450,Debit'' \<rparr>"

definition noPdf :: "string \<Rightarrow> string option" where
  \<comment> \<open>a text extraction that always throws; the CSV branch never calls it\<close>
  "noPdf bytes = None"

definition pharmacy_tx :: Transaction where
  \<comment> \<open>a debit that no keyword rule matches and that already carries a category\<close>
  "pharmacy_tx =
     \<lparr> date = ''04-10-2025'', description = ''CITY PHARMACY'', amount = 220, type = DEBIT,
       category = GROCERIES, raw = None, merchant = None \<rparr>"

definition devraj_tx :: Transaction where
  \<comment> \<open>a debit to a named person that is not a transfer\<close>
  "devraj_tx =
     \<lparr> date = ''01 Oct, 2025'', description = ''PAYMENT TO DEVRAJ VERMA'', amount = 135,
       type = DEBIT, category = OTHER, raw = None, merchant = Some ''DEVRAJ VERMA'' \<rparr>"

section \<open>The sample inputs, evaluated\<close>

lemma scenarioB_rows: "parsePdfTextToRows scenarioB = [scenarioB_row]"
  by code_simp

lemma scenarioB_amount: "Number (cleanAmount (rowAmountStr scenarioB_row)) = Num (- 135)"
  by code_simp

lemma scenarioB_typeField: "rowTypeField scenarioB_row = ''debit''"
  by code_simp

lemma scenarioB_hasType: "hasTypeColumn scenarioB_row"
  by code_simp

lemma scenarioB_date: "rowDate today scenarioB_row = ''01 Oct, 2025''"
  by (simp add: rowDate_def scenarioB_row_def getProp_def)

lemma scenarioB_description:
  "rowDescription scenarioB_row = ''UPI/DEVRAJ VERMA/29xxxx/Sent using Paytm UPI-527431570952''"
  by code_simp

lemma debit_names_no_credit:
  "includesStr ''debit'' ''credit'' = False" "includesStr ''debit'' ''cr'' = False"
  by code_simp+

lemma scenarioB_mapped:
  "mapRowToTransaction today scenarioB_row =
     Some \<lparr> date = ''01 Oct, 2025'',
            description = ''UPI/DEVRAJ VERMA/29xxxx/Sent using Paytm UPI-527431570952'',
            amount = 135, type = CREDIT, category = OTHER,
            raw = Some scenarioB_row, merchant = None \<rparr>"
  by (simp add: mapRowToTransaction_def scenarioB_amount scenarioB_typeField scenarioB_date
        scenarioB_description debit_names_no_credit)

lemma scenarioB_names_devraj:
  "includesStr ''UPI/DEVRAJ VERMA/29xxxx/Sent using Paytm UPI-527431570952'' ''DEVRAJ VERMA''"
  by code_simp

lemma zero_csv_rows: "extractRows noPdf zero_csv = Some [zero_row]"
  by code_simp

lemma zero_row_amount: "Number (cleanAmount (rowAmountStr zero_row)) = Num 0"
  by code_simp

lemma empty_csv_rows: "extractRows noPdf empty_csv = Some []"
  by code_simp

lemma scenarioA_rows: "extractRows noPdf scenarioA_csv = Some [swiggy_row]"
  by code_simp

lemma swiggy_has_date: "hasDateColumn swiggy_row"
  by code_simp

lemma pharmacy_no_keyword: "matchesNoKeywordRule pharmacy_tx"
  by code_simp

section \<open>Properties of the mapper\<close>

lemma mapRow_Some:
  "mapRowToTransaction today r = Some tx \<Longrightarrow>
   \<exists>a. Number (cleanAmount (rowAmountStr r)) = Num a \<and> a \<noteq> 0 \<and> amount tx = \<bar>a\<bar>
        \<and> category tx = OTHER \<and> merchant tx = None \<and> raw tx = Some r"
  by (auto simp: mapRowToTransaction_def Let_def split: number.splits if_splits)

lemma mapRow_None_iff:
  "mapRowToTransaction today r = None \<longleftrightarrow>
     Number (cleanAmount (rowAmountStr r)) = NaN \<or> Number (cleanAmount (rowAmountStr r)) = Num 0"
  by (auto simp: mapRowToTransaction_def Let_def split: number.splits if_splits)

lemma map_filter_append:
  "List.map_filter f (xs @ ys) = List.map_filter f xs @ List.map_filter f ys"
  by (simp add: List.map_filter_def)

text \<open>
  Claim C1.  The claim: the type comes from the explicit type column when the row has one,
  and from the sign of the amount only when it has none, so that a row whose type column
  does not say credit is a DEBIT even when its amount is negative.  The function instead
  makes a row CREDIT as soon as its amount is negative, whatever the type column says.
  The row that \<open>parsePdfTextToRows\<close> builds for the statement line of the PDF example
  has the type column \<^verbatim>\<open>Credit/Debit\<close> with the value \<^verbatim>\<open>Debit\<close>, which the parser
  chose because the amount token has a minus sign; its cleaned amount is \<open>-135\<close>, and
  \<open>mapRowToTransaction\<close> gives it the type CREDIT.
\<close>

theorem explicit_debit_with_negative_amount_is_credit:
  "parsePdfTextToRows scenarioB = [scenarioB_row]
   \<and> hasTypeColumn scenarioB_row
   \<and> rowTypeField scenarioB_row = ''debit''
   \<and> Number (cleanAmount (rowAmountStr scenarioB_row)) = Num (- 135)
   \<and> map_option type (mapRowToTransaction today scenarioB_row) = Some CREDIT"
  by (simp add: scenarioB_rows scenarioB_hasType scenarioB_typeField scenarioB_amount
        scenarioB_mapped)

text \<open>
  Claim C3, as stated, fails.  For the statement line of the PDF example,
  \<open>parsePdfTextToRows\<close> followed by \<open>mapRowToTransaction\<close> yields one transaction
  whose type is CREDIT, not DEBIT, and which has no counterparty name.
\<close>

theorem scenarioB_counterexample:
  "map type (List.map_filter (mapRowToTransaction ''2025-11-02'') (parsePdfTextToRows scenarioB))
     = [CREDIT]
   \<and> map merchant (List.map_filter (mapRowToTransaction ''2025-11-02'') (parsePdfTextToRows scenarioB))
     = [None]"
  by (simp add: scenarioB_rows scenarioB_mapped)

text \<open>
  Claim C3, amended.  For the statement line of the PDF example and on any day,
  \<open>parsePdfTextToRows\<close> followed by \<open>mapRowToTransaction\<close> yields exactly one
  transaction.  Its description is the narration between the date and the amount, which
  contains \<^verbatim>\<open>DEVRAJ VERMA\<close>; its amount is 135; it keeps the row it came from, whose
  \<^verbatim>\<open>Credit/Debit\<close> column says \<^verbatim>\<open>Debit\<close>; and it has no counterparty name, since
  neither function computes one.
\<close>

theorem scenarioB_pipeline:
  "\<exists>tx. map (mapRowToTransaction today) (parsePdfTextToRows scenarioB) = [Some tx]
     \<and> description tx = ''UPI/DEVRAJ VERMA/29xxxx/Sent using Paytm UPI-527431570952''
     \<and> includesStr (description tx) ''DEVRAJ VERMA''
     \<and> amount tx = 135
     \<and> raw tx = Some scenarioB_row
     \<and> getProp scenarioB_row ''Credit/Debit'' = Some ''Debit''
     \<and> merchant tx = None"
proof -
  have "getProp scenarioB_row ''Credit/Debit'' = Some ''Debit''"
    by (simp add: getProp_def scenarioB_row_def)
  then show ?thesis
    by (simp add: scenarioB_rows scenarioB_mapped scenarioB_names_devraj del: includesStr.simps)
qed

text \<open>
  Claim C6.  \<open>mapRowToTransaction\<close> returns nothing for a row exactly when the cleaned
  amount string parses to \<open>NaN\<close> or to zero; and a row it rejects leaves no trace in the
  transaction sequence: the rows before it and the rows after it are processed as if it
  were not there.
\<close>

theorem rejected_rows_are_dropped:
  "(mapRowToTransaction today r = None \<longleftrightarrow>
      Number (cleanAmount (rowAmountStr r)) = NaN \<or> Number (cleanAmount (rowAmountStr r)) = Num 0)
   \<and> (mapRowToTransaction today r = None \<longrightarrow>
        toTransactions today (before @ r # after)
          = toTransactions today before @ toTransactions today after)"
proof (intro conjI impI)
  show "mapRowToTransaction today r = None \<longleftrightarrow>
      Number (cleanAmount (rowAmountStr r)) = NaN \<or> Number (cleanAmount (rowAmountStr r)) = Num 0"
    by (rule mapRow_None_iff)
next
  assume "mapRowToTransaction today r = None"
  then show "toTransactions today (before @ r # after)
          = toTransactions today before @ toTransactions today after"
    by (simp add: toTransactions_def map_filter_append)
qed

text \<open>
  A row with the amount \<^verbatim>\<open>INR 0.00\<close> between two good rows: it is rejected, and the two
  good rows give two transactions.
\<close>

theorem rejected_rows_are_dropped_witness:
  "mapRowToTransaction ''2025-11-02'' zero_row = None
   \<and> toTransactions ''2025-11-02'' ([swiggy_row] @ zero_row # [salary_row])
        = toTransactions ''2025-11-02'' [swiggy_row] @ toTransactions ''2025-11-02'' [salary_row]
   \<and> length (toTransactions ''2025-11-02'' ([swiggy_row] @ zero_row # [salary_row])) = 2"
proof -
  have z: "Number (cleanAmount (rowAmountStr zero_row)) = Num 0"
    by (rule zero_row_amount)
  have l: "length (toTransactions ''2025-11-02'' [swiggy_row]
                   @ toTransactions ''2025-11-02'' [salary_row]) = 2"
    by code_simp
  from rejected_rows_are_dropped [of "''2025-11-02''" zero_row "[swiggy_row]" "[salary_row]"] z l
  show ?thesis by simp
qed

text \<open>
  Claim C10.  Every transaction that \<open>mapRowToTransaction\<close> returns has an amount
  strictly above zero: zero and \<open>NaN\<close> are rejected before the absolute value is taken.
\<close>

theorem mapped_amount_positive:
  "mapRowToTransaction today r = Some tx \<Longrightarrow> 0 < amount tx"
  using mapRow_Some by fastforce

theorem mapped_amount_positive_witness:
  "mapRowToTransaction ''2025-11-02'' scenarioB_row \<noteq> None
   \<and> 0 < amount (the (mapRowToTransaction ''2025-11-02'' scenarioB_row))"
  using mapped_amount_positive
    [of "''2025-11-02''" scenarioB_row "the (mapRowToTransaction ''2025-11-02'' scenarioB_row)"]
  by (simp add: scenarioB_mapped)

section \<open>Properties of the categorizer\<close>

text \<open>
  Claim C4.  For every transaction \<open>tx\<close> whose type is CREDIT, \<open>categorizeTransaction tx\<close>
  has category INCOME, whatever its description says: the test of the type comes before
  every keyword rule.
\<close>

theorem categorize_credit_is_income:
  "type tx = CREDIT \<Longrightarrow> category (categorizeTransaction tx) = INCOME"
  by (simp add: categorizeTransaction_def)

text \<open>
  A credit whose description matches the subscription rule is INCOME all the same.
\<close>

theorem categorize_credit_is_income_witness:
  "type \<lparr>date = ''01-10-2025'', description = ''NETFLIX RENEWAL'', amount = 499, type = CREDIT,
         category = OTHER, raw = None, merchant = None\<rparr> = CREDIT
   \<and> category (categorizeTransaction
        \<lparr>date = ''01-10-2025'', description = ''NETFLIX RENEWAL'', amount = 499, type = CREDIT,
         category = OTHER, raw = None, merchant = None\<rparr>) = INCOME"
  using categorize_credit_is_income
    [of "\<lparr>date = ''01-10-2025'', description = ''NETFLIX RENEWAL'', amount = 499, type = CREDIT,
         category = OTHER, raw = None, merchant = None\<rparr>"]
  by simp

lemma matchesNoKeywordRule_unfold:
  "matchesNoKeywordRule tx \<longleftrightarrow>
     (let desc = toLowerCase (description tx) in
      \<not> testAny reSubscription desc \<and> \<not> testAny reFoodDelivery desc \<and> \<not> testAny reRent desc \<and>
      \<not> testAny reGroceries desc \<and> \<not> testAny reShopping desc \<and> \<not> testAny reTransport desc \<and>
      \<not> testAny reUtilities desc \<and> \<not> testAny reBankFees desc \<and> \<not> testAny reTransfer desc)"
  by (simp add: matchesNoKeywordRule_def keywordRules_def Let_def)

text \<open>
  Claim C8, as stated, fails.  A debit that no keyword rule matches and that comes in with
  the category GROCERIES leaves \<open>categorizeTransaction\<close> with GROCERIES, not OTHER.
\<close>

theorem default_keeps_category_counterexample:
  "type pharmacy_tx = DEBIT \<and> matchesNoKeywordRule pharmacy_tx
   \<and> category (categorizeTransaction pharmacy_tx) = GROCERIES"
  by code_simp

text \<open>
  Claim C8, amended.  \<open>categorizeTransaction\<close> is a total function whose rules are tried
  in order, the first match deciding.  For every DEBIT transaction whose description
  matches none of the keyword rules, it returns the transaction as it came, so the
  category is the one the input carried; that category is OTHER for every transaction
  that comes from \<open>mapRowToTransaction\<close>.
\<close>

theorem default_returns_input:
  "type tx = DEBIT \<Longrightarrow> matchesNoKeywordRule tx \<Longrightarrow>
   categorizeTransaction tx = tx
   \<and> (\<forall>today r. mapRowToTransaction today r = Some tx \<longrightarrow>
         category (categorizeTransaction tx) = OTHER)"
  using mapRow_Some
  by (fastforce simp: matchesNoKeywordRule_unfold categorizeTransaction_def Let_def)

theorem default_returns_input_witness:
  "type pharmacy_tx = DEBIT \<and> matchesNoKeywordRule pharmacy_tx
   \<and> categorizeTransaction pharmacy_tx = pharmacy_tx"
proof -
  have t: "type pharmacy_tx = DEBIT" by (simp add: pharmacy_tx_def)
  have m: "matchesNoKeywordRule pharmacy_tx" by (rule pharmacy_no_keyword)
  from default_returns_input [OF t m] t m show ?thesis by simp
qed

section \<open>Properties of the aggregator\<close>





text \<open>
  Claim C2, as stated, fails.  The summary of a single debit that is not a transfer and
  that names its counterparty has no \<open>topMerchants\<close>.
\<close>

theorem no_topMerchants_counterexample:
  "type devraj_tx = DEBIT \<and> category devraj_tx \<noteq> TRANSFER
   \<and> merchant devraj_tx = Some ''DEVRAJ VERMA''
   \<and> topMerchants (computeSummary [devraj_tx]) = None"
  by (simp add: devraj_tx_def computeSummary_def Let_def)

lemma addTransaction_merchant:
  "addTransaction s (tx\<lparr>merchant := m\<rparr>) = addTransaction s tx"
  by (simp add: addTransaction_def)

lemma foldl_addTransaction_merchant:
  "foldl addTransaction s (map (\<lambda>tx. tx\<lparr>merchant := f tx\<rparr>) txs) = foldl addTransaction s txs"
  by (induction txs arbitrary: s) (simp_all add: addTransaction_merchant)

text \<open>
  Claim C2, amended.  For every list of transactions, the summary that \<open>computeSummary\<close>
  returns has no \<open>topMerchants\<close>: the function fills the totals, \<open>byCategory\<close> and
  \<open>leaks\<close>, and never groups, sorts or truncates by merchant.  The summary does not
  even depend on the merchants: renaming them in any way \<open>f\<close> leaves it as it is.
\<close>

theorem summary_has_no_topMerchants:
  "topMerchants (computeSummary txs) = None
   \<and> computeSummary (map (\<lambda>tx. tx\<lparr>merchant := f tx\<rparr>) txs) = computeSummary txs"
  by (simp add: computeSummary_def Let_def foldl_addTransaction_merchant)

section \<open>Properties of the handler\<close>

text \<open>
  Claim C7, as stated, fails.  A statement whose only row has the amount 0 gives one row
  and no transaction, and the handler answers with status 200 and the summary of the
  empty list.
\<close>

theorem all_rows_rejected_counterexample:
  "POST noPdf ''2025-11-02'' (Some zero_csv) = Success [] (computeSummary [])
   \<and> status (POST noPdf ''2025-11-02'' (Some zero_csv)) = 200"
proof -
  have "mapRowToTransaction ''2025-11-02'' zero_row = None"
    by (simp add: mapRow_None_iff zero_row_amount)
  then show ?thesis
    by (simp add: POST_def zero_csv_rows toTransactions_def status_def)
qed

text \<open>
  Claim C7, amended.  The handler reports that no transactions were detected exactly when
  the extraction step yields zero rows, and then there is no summary.  When the extraction
  yields at least one row, the handler succeeds with the transactions of the rows that the
  mapper accepts and their summary, also when the mapper accepts none of them.
\<close>

theorem no_rows_failure:
  "(POST pdfParse today (Some file) = Failure NoTransactionsDetected
      \<longleftrightarrow> extractRows pdfParse file = Some [])
   \<and> (\<forall>rows. extractRows pdfParse file = Some rows \<and> rows \<noteq> [] \<longrightarrow>
        POST pdfParse today (Some file)
          = Success (toTransactions today rows) (computeSummary (toTransactions today rows)))"
  by (auto simp: POST_def Let_def split: option.splits)

theorem no_rows_failure_witness:
  "extractRows noPdf empty_csv = Some []
   \<and> POST noPdf ''2025-11-02'' (Some empty_csv) = Failure NoTransactionsDetected
   \<and> extractRows noPdf scenarioA_csv = Some [swiggy_row]
   \<and> POST noPdf ''2025-11-02'' (Some scenarioA_csv)
        = Success (toTransactions ''2025-11-02'' [swiggy_row])
            (computeSummary (toTransactions ''2025-11-02'' [swiggy_row]))"
  using no_rows_failure [of noPdf "''2025-11-02''" empty_csv]
        no_rows_failure [of noPdf "''2025-11-02''" scenarioA_csv]
  by (simp add: empty_csv_rows scenarioA_rows)

subsection \<open>The clock\<close>

lemma firstTruthy_default_irrelevant:
  "list_ex (\<lambda>x. case x of None \<Rightarrow> False | Some v \<Rightarrow> v \<noteq> []) xs \<Longrightarrow>
   firstTruthy xs d = firstTruthy xs d'"
  by (induction xs d rule: firstTruthy.induct) auto

lemma rowDate_indep: "hasDateColumn r \<Longrightarrow> rowDate t1 r = rowDate t2 r"
  unfolding rowDate_def hasDateColumn_def
  by (rule firstTruthy_default_irrelevant) simp

lemma mapRow_indep: "hasDateColumn r \<Longrightarrow> mapRowToTransaction t1 r = mapRowToTransaction t2 r"
  using rowDate_indep [of r t1 t2] by (simp add: mapRowToTransaction_def split: number.splits)

lemma mapRow_forget:
  "map_option (\<lambda>tx. tx\<lparr>date := []\<rparr>) (mapRowToTransaction t1 r)
     = map_option (\<lambda>tx. tx\<lparr>date := []\<rparr>) (mapRowToTransaction t2 r)"
  by (simp add: mapRowToTransaction_def Let_def split: number.splits)

lemma categorize_forget:
  "categorizeTransaction (tx\<lparr>date := d\<rparr>) = (categorizeTransaction tx)\<lparr>date := d\<rparr>"
  by (simp add: categorizeTransaction_def Let_def)

lemma addTransaction_forget: "addTransaction s (tx\<lparr>date := d\<rparr>) = addTransaction s tx"
  by (simp add: addTransaction_def)

lemma foldl_addTransaction_forget:
  "foldl addTransaction s (map (\<lambda>tx. tx\<lparr>date := d\<rparr>) txs) = foldl addTransaction s txs"
  by (induction txs arbitrary: s) (simp_all add: addTransaction_forget)

lemma computeSummary_forget:
  "computeSummary (map (\<lambda>tx. tx\<lparr>date := d\<rparr>) txs) = computeSummary txs"
  by (simp add: computeSummary_def foldl_addTransaction_forget)

lemma toTransactions_forget:
  "map (\<lambda>tx. tx\<lparr>date := []\<rparr>) (toTransactions t1 rows)
     = map (\<lambda>tx. tx\<lparr>date := []\<rparr>) (toTransactions t2 rows)"
proof (induction rows)
  case Nil
  then show ?case by (simp add: toTransactions_def)
next
  case (Cons r rows)
  from mapRow_forget [of t1 r t2] Cons show ?case
    by (cases "mapRowToTransaction t1 r"; cases "mapRowToTransaction t2 r")
       (simp_all add: toTransactions_def categorize_forget [symmetric])
qed

lemma computeSummary_indep:
  "computeSummary (toTransactions t1 rows) = computeSummary (toTransactions t2 rows)"
proof -
  have "computeSummary (toTransactions t1 rows)
          = computeSummary (map (\<lambda>tx. tx\<lparr>date := []\<rparr>) (toTransactions t1 rows))"
    by (simp only: computeSummary_forget)
  also have "\<dots> = computeSummary (map (\<lambda>tx. tx\<lparr>date := []\<rparr>) (toTransactions t2 rows))"
    by (simp only: toTransactions_forget [of t1 rows t2])
  also have "\<dots> = computeSummary (toTransactions t2 rows)"
    by (simp only: computeSummary_forget)
  finally show ?thesis .
qed

lemma toTransactions_indep:
  "list_all hasDateColumn rows \<Longrightarrow> toTransactions t1 rows = toTransactions t2 rows"
proof (induction rows)
  case Nil
  then show ?case by (simp add: toTransactions_def)
next
  case (Cons r rows)
  then have "mapRowToTransaction t1 r = mapRowToTransaction t2 r"
    by (simp add: mapRow_indep)
  with Cons show ?case by (simp add: toTransactions_def split: option.splits)
qed

text \<open>
  Claim C9.  Two runs of the handler on the same upload, on the days \<open>today1\<close> and
  \<open>today2\<close>, give the same summary, or the same error in its place: the clock is read
  only for the date of a row without a date column, and the summary reads no date.  When
  every extracted row has a date column, the two responses are the same altogether,
  transactions included.
\<close>

theorem summary_independent_of_clock:
  "responseSummary (POST pdfParse today1 req) = responseSummary (POST pdfParse today2 req)
   \<and> (list_all hasDateColumn (extractedRows pdfParse req) \<longrightarrow>
        POST pdfParse today1 req = POST pdfParse today2 req)"
proof (intro conjI impI)
  show "responseSummary (POST pdfParse today1 req) = responseSummary (POST pdfParse today2 req)"
    by (simp add: POST_def responseSummary_def Let_def computeSummary_indep [of today1 _ today2]
             split: option.splits)
next
  assume "list_all hasDateColumn (extractedRows pdfParse req)"
  then show "POST pdfParse today1 req = POST pdfParse today2 req"
    by (auto simp: POST_def extractedRows_def Let_def toTransactions_indep [of _ today1 today2]
             split: option.splits)
qed

theorem summary_independent_of_clock_witness:
  "list_all hasDateColumn (extractedRows noPdf (Some scenarioA_csv))
   \<and> responseSummary (POST noPdf ''2025-11-02'' (Some scenarioA_csv))
       = responseSummary (POST noPdf ''2026-01-15'' (Some scenarioA_csv))
   \<and> POST noPdf ''2025-11-02'' (Some scenarioA_csv) = POST noPdf ''2026-01-15'' (Some scenarioA_csv)"
proof -
  have h: "list_all hasDateColumn (extractedRows noPdf (Some scenarioA_csv))"
    by (simp add: extractedRows_def scenarioA_rows swiggy_has_date)
  from summary_independent_of_clock
         [of noPdf "''2025-11-02''" "Some scenarioA_csv" "''2026-01-15''"] h
  show ?thesis by simp
qed

end
